theory Spec2Isabelle
  imports Complex_Main
begin

section \<open>The single-unit profit calculator (profitcalc.py)\<close>

text \<open>
  The source is one Python script: two functions (\<open>calculate_shopify_fees\<close>,
  \<open>calculate_breakeven_metrics\<close>) and a top-level body that reads four values from input
  widgets, derives the metrics and hands four magnitudes to a chart.

  Numbers. The script computes with Python floats; the specification's data model speaks of
  decimals and of exact identities. The embedding follows the specification and uses
  \<^typ>\<open>real\<close>, that is exact arithmetic: binary rounding of the float operations is not
  part of the model, and every equation below is an equation of exact arithmetic.

  Errors. The only operation of the calculation that can raise is the division \<open>/\<close>, which
  raises \<open>ZeroDivisionError\<close> on a zero divisor. It is modelled as a function into a sum type,
  so that each guard of the source is what keeps the model out of the error branch.
\<close>

subsection \<open>Python division\<close>

datatype py_error = ZeroDivisionError

definition truediv :: "real \<Rightarrow> real \<Rightarrow> py_error + real" where
  "truediv a b = (if b = 0 then Inl ZeroDivisionError else Inr (a / b))"

text \<open>Sequencing of a step that may raise with the rest of the computation.\<close>

definition then_do :: "py_error + 'a \<Rightarrow> ('a \<Rightarrow> py_error + 'b) \<Rightarrow> py_error + 'b" where
  "then_do m f = (case m of Inl e \<Rightarrow> Inl e | Inr x \<Rightarrow> f x)"

subsection \<open>The two functions\<close>

text \<open>
  \<^verbatim>\<open>
  def calculate_shopify_fees(product_price: float) -> float:
      return 0.029 * product_price + 0.30
  \<close>
\<close>

definition calculate_shopify_fees :: "real \<Rightarrow> real" where
  "calculate_shopify_fees product_price = 0.029 * product_price + 0.30"

text \<open>
  \<^verbatim>\<open>
  def calculate_breakeven_metrics(p: float, c: float, fees: float):
      ad_spend_breakeven = p - c - fees
      breakeven_cpa = ad_spend_breakeven
      if ad_spend_breakeven != 0:
          breakeven_roas = p / ad_spend_breakeven
      else:
          breakeven_roas = 0  # or float('inf') if you prefer
      return {"breakeven_cpa": breakeven_cpa, "breakeven_roas": breakeven_roas}
  \<close>
  The returned dictionary has two fixed keys; it is a record here.
\<close>

record breakeven_metrics =
  breakeven_cpa :: real
  breakeven_roas :: real

definition calculate_breakeven_metrics :: "real \<Rightarrow> real \<Rightarrow> real \<Rightarrow> py_error + breakeven_metrics" where
  "calculate_breakeven_metrics p c fees =
     (let ad_spend_breakeven = p - c - fees;
          cpa = ad_spend_breakeven
      in then_do (if ad_spend_breakeven \<noteq> 0 then truediv p ad_spend_breakeven else Inr 0)
           (\<lambda>roas. Inr \<lparr>breakeven_cpa = cpa, breakeven_roas = roas\<rparr>))"

subsection \<open>The script body\<close>

text \<open>
  The four inputs come from widgets: \<open>product_price\<close> and \<open>cogs\<close> from number inputs with
  \<open>min_value=0.0\<close>, \<open>calculation_mode\<close> from a radio button over \<open>("CPA", "ROAS")\<close>, and the
  mode's value (\<open>desired_cpa\<close> or \<open>desired_roas\<close>) from a number input with \<open>min_value=0.0\<close>.
  \<open>widget_inputs\<close> is what the widgets guarantee; the calculation itself checks none of it.
\<close>

definition widget_inputs :: "real \<Rightarrow> real \<Rightarrow> string \<Rightarrow> real \<Rightarrow> bool" where
  "widget_inputs product_price cogs calculation_mode mode_value \<longleftrightarrow>
     0 \<le> product_price \<and> 0 \<le> cogs \<and>
     (calculation_mode = ''CPA'' \<or> calculation_mode = ''ROAS'') \<and> 0 \<le> mode_value"

text \<open>
  Mode-specific logic (section 3 of the script). The result is the triple
  \<open>(ad_spend, final_cpa, final_roas)\<close>.
  \<^verbatim>\<open>
  if calculation_mode == "CPA":
      ad_spend = desired_cpa
      final_roas = product_price / ad_spend if ad_spend > 0 else 0.0
      final_cpa = desired_cpa
  else:
      if desired_roas > 0:
          ad_spend = product_price / desired_roas
          final_cpa = ad_spend
          final_roas = desired_roas
      else:
          ad_spend = 0.0; final_cpa = 0.0; final_roas = 0.0
  \<close>
\<close>

definition mode_specific_logic :: "string \<Rightarrow> real \<Rightarrow> real \<Rightarrow> py_error + (real \<times> real \<times> real)" where
  "mode_specific_logic calculation_mode mode_value product_price =
     (if calculation_mode = ''CPA'' then
        (let desired_cpa = mode_value;
             ad_spend = desired_cpa
         in then_do (if ad_spend > 0 then truediv product_price ad_spend else Inr 0)
              (\<lambda>final_roas. Inr (ad_spend, desired_cpa, final_roas)))
      else
        (let desired_roas = mode_value
         in if desired_roas > 0 then
              then_do (truediv product_price desired_roas)
                (\<lambda>ad_spend. Inr (ad_spend, ad_spend, desired_roas))
            else Inr (0, 0, 0)))"

text \<open>
  Profit (section 4 of the script):
  \<^verbatim>\<open>profit = product_price - cogs - shopify_fees - ad_spend\<close>
\<close>

definition unit_profit :: "real \<Rightarrow> real \<Rightarrow> real \<Rightarrow> real \<Rightarrow> real" where
  "unit_profit product_price cogs shopify_fees ad_spend =
     product_price - cogs - shopify_fees - ad_spend"

text \<open>
  The variables of the script after one run. \<open>breakeven_data\<close> is the dictionary returned by
  \<open>calculate_breakeven_metrics\<close> (the script's \<open>breakeven_cpa\<close> and \<open>breakeven_roas\<close> are
  its two entries). \<open>chart_values\<close> is the list \<open>values\<close> that the script passes to the pie
  or bar chart, in the order of \<open>labels\<close>.
  \<^verbatim>\<open>
  shopify_fees = calculate_shopify_fees(product_price)
  breakeven_data = calculate_breakeven_metrics(product_price, cogs, shopify_fees)
  ...                                  # mode-specific logic
  profit = product_price - cogs - shopify_fees - ad_spend
  ...
  labels = ["COGS", "Shopify Fees", "Ad Spend", "Profit"]
  values = [cogs, shopify_fees, ad_spend, profit]
  \<close>
  In \<open>profit_calculator\<close> the bound names \<open>fees\<close>, \<open>bd\<close>, \<open>a\<close>, \<open>cpa\<close>, \<open>roas\<close> and
  \<open>pr\<close> stand for the script's \<open>shopify_fees\<close>, \<open>breakeven_data\<close>, \<open>ad_spend\<close>,
  \<open>final_cpa\<close>, \<open>final_roas\<close> and \<open>profit\<close>, which are field names of the record.
\<close>

record calc =
  shopify_fees :: real
  breakeven_data :: breakeven_metrics
  ad_spend :: real
  final_cpa :: real
  final_roas :: real
  profit :: real
  chart_values :: "real list"

definition labels :: "string list" where
  "labels = [''COGS'', ''Shopify Fees'', ''Ad Spend'', ''Profit'']"

definition profit_calculator :: "real \<Rightarrow> real \<Rightarrow> string \<Rightarrow> real \<Rightarrow> py_error + calc" where
  "profit_calculator product_price cogs calculation_mode mode_value =
     (let fees = calculate_shopify_fees product_price
      in then_do (calculate_breakeven_metrics product_price cogs fees)
           (\<lambda>bd. then_do (mode_specific_logic calculation_mode mode_value product_price)
              (\<lambda>(a, cpa, roas).
                 let pr = unit_profit product_price cogs fees a
                 in Inr \<lparr>shopify_fees = fees, breakeven_data = bd, ad_spend = a,
                         final_cpa = cpa, final_roas = roas, profit = pr,
                         chart_values = [cogs, fees, a, pr]\<rparr>)))"

section \<open>Basic facts\<close>

lemma then_do_Inr: "then_do (Inr x) f = f x"
  by (simp add: then_do_def)

lemma calculate_breakeven_metrics_eq:
  "calculate_breakeven_metrics p c fees =
     Inr \<lparr>breakeven_cpa = p - c - fees,
          breakeven_roas = (if p - c - fees \<noteq> 0 then p / (p - c - fees) else 0)\<rparr>"
  by (simp add: calculate_breakeven_metrics_def Let_def truediv_def then_do_def)

lemma mode_specific_logic_CPA:
  "mode_specific_logic ''CPA'' v p = Inr (v, v, if v > 0 then p / v else 0)"
  by (simp add: mode_specific_logic_def Let_def truediv_def then_do_def)

lemma mode_specific_logic_other:
  "m \<noteq> ''CPA'' \<Longrightarrow>
     mode_specific_logic m v p = (if v > 0 then Inr (p / v, p / v, v) else Inr (0, 0, 0))"
  by (simp add: mode_specific_logic_def Let_def truediv_def then_do_def)

lemma mode_specific_logic_total: "\<exists>a cpa roas. mode_specific_logic m v p = Inr (a, cpa, roas)"
  by (cases "m = ''CPA''") (simp_all add: mode_specific_logic_CPA mode_specific_logic_other)

lemma profit_calculator_eq:
  assumes "mode_specific_logic m v p = Inr (a, cpa, roas)"
  shows "profit_calculator p c m v =
     Inr \<lparr>shopify_fees = calculate_shopify_fees p,
          breakeven_data =
            \<lparr>breakeven_cpa = p - c - calculate_shopify_fees p,
             breakeven_roas = (if p - c - calculate_shopify_fees p \<noteq> 0
                               then p / (p - c - calculate_shopify_fees p) else 0)\<rparr>,
          ad_spend = a, final_cpa = cpa, final_roas = roas,
          profit = unit_profit p c (calculate_shopify_fees p) a,
          chart_values = [c, calculate_shopify_fees p, a,
                          unit_profit p c (calculate_shopify_fees p) a]\<rparr>"
  using assms
  by (simp add: profit_calculator_def Let_def calculate_breakeven_metrics_eq then_do_Inr)

lemma profit_calculator_total: "\<exists>r. profit_calculator p c m v = Inr r"
  using mode_specific_logic_total [of m v p] by (auto simp: profit_calculator_eq)

subsection \<open>The concrete scenarios of the specification\<close>

lemma scenario_1:
  "profit_calculator 82.99 10 ''CPA'' 20 =
     Inr \<lparr>shopify_fees = 2.70671,
          breakeven_data = \<lparr>breakeven_cpa = 70.28329, breakeven_roas = 8299000 / 7028329\<rparr>,
          ad_spend = 20, final_cpa = 20, final_roas = 4.1495, profit = 50.28329,
          chart_values = [10, 2.70671, 20, 50.28329]\<rparr>"
  by (simp add: profit_calculator_eq [OF mode_specific_logic_CPA]
      calculate_shopify_fees_def unit_profit_def)

lemma scenario_2:
  "profit_calculator 100 20 ''ROAS'' 2 =
     Inr \<lparr>shopify_fees = 3.20,
          breakeven_data = \<lparr>breakeven_cpa = 76.8, breakeven_roas = 1000 / 768\<rparr>,
          ad_spend = 50, final_cpa = 50, final_roas = 2, profit = 26.80,
          chart_values = [20, 3.20, 50, 26.80]\<rparr>"
proof -
  have "mode_specific_logic ''ROAS'' 2 100 = Inr (50, 50, 2)"
    by (simp add: mode_specific_logic_other)
  from profit_calculator_eq [OF this] show ?thesis
    by (simp add: calculate_shopify_fees_def unit_profit_def)
qed

lemma scenario_3:
  "profit_calculator 0 0 ''CPA'' 0 =
     Inr \<lparr>shopify_fees = 0.30,
          breakeven_data = \<lparr>breakeven_cpa = - 0.30, breakeven_roas = 0\<rparr>,
          ad_spend = 0, final_cpa = 0, final_roas = 0, profit = - 0.30,
          chart_values = [0, 0.30, 0, - 0.30]\<rparr>"
proof -
  have "mode_specific_logic ''CPA'' 0 0 = Inr (0, 0, 0)"
    by (simp add: mode_specific_logic_CPA)
  from profit_calculator_eq [OF this] show ?thesis
    by (simp add: calculate_shopify_fees_def unit_profit_def)
qed

lemma scenario_roas_zero:
  "profit_calculator 100 20 ''ROAS'' 0 =
     Inr \<lparr>shopify_fees = 3.20,
          breakeven_data = \<lparr>breakeven_cpa = 76.8, breakeven_roas = 1000 / 768\<rparr>,
          ad_spend = 0, final_cpa = 0, final_roas = 0, profit = 76.80,
          chart_values = [20, 3.20, 0, 76.80]\<rparr>"
proof -
  have "mode_specific_logic ''ROAS'' 0 100 = Inr (0, 0, 0)"
    by (simp add: mode_specific_logic_other)
  from profit_calculator_eq [OF this] show ?thesis
    by (simp add: calculate_shopify_fees_def unit_profit_def)
qed

lemma scenario_breakeven:
  "calculate_breakeven_metrics 82.99 10 2.70671 =
     Inr \<lparr>breakeven_cpa = 70.28329, breakeven_roas = 8299000 / 7028329\<rparr>"
  by (simp add: calculate_breakeven_metrics_eq)

section \<open>The profit identity\<close>

text \<open>
  C1. For every input (product price, COGS, mode, mode value) the script produces a record,
  and in it \<open>profit = product_price - cogs - shopify_fees - ad_spend\<close>, with the fees and the
  ad spend of the same record.
\<close>

theorem profit_identity:
  "\<exists>r. profit_calculator product_price cogs calculation_mode mode_value = Inr r \<and>
       profit r = product_price - cogs - shopify_fees r - ad_spend r"
proof -
  obtain a cpa roas
    where "mode_specific_logic calculation_mode mode_value product_price = Inr (a, cpa, roas)"
    using mode_specific_logic_total by blast
  then show ?thesis
    by (simp add: profit_calculator_eq unit_profit_def)
qed

text \<open>The identity at scenario 1: \<open>50.28329 = 82.99 - 10 - 2.70671 - 20\<close>.\<close>

theorem profit_identity_witness:
  "\<exists>r. profit_calculator 82.99 10 ''CPA'' 20 = Inr r \<and> profit r = 50.28329 \<and>
       profit r = 82.99 - 10 - shopify_fees r - ad_spend r"
  using profit_identity [of "82.99" 10 "''CPA''" 20] unfolding scenario_1 by simp

section \<open>Mode-dependent ad spend\<close>

text \<open>
  C2. In CPA mode, for every product price and mode value: \<open>ad_spend\<close> and \<open>final_cpa\<close> are
  the mode value, and \<open>final_roas\<close> is \<open>product_price / ad_spend\<close> when \<open>ad_spend > 0\<close> and
  \<open>0\<close> otherwise.
\<close>

theorem cpa_mode:
  "\<exists>r. profit_calculator product_price cogs ''CPA'' mode_value = Inr r \<and>
       ad_spend r = mode_value \<and> final_cpa r = mode_value \<and>
       final_roas r = (if ad_spend r > 0 then product_price / ad_spend r else 0)"
  by (simp add: profit_calculator_eq [OF mode_specific_logic_CPA])

text \<open>Both branches of the guard: a desired CPA of 20 at price 82.99, and a desired CPA of 0.\<close>

theorem cpa_mode_witness:
  "(\<exists>r. profit_calculator 82.99 10 ''CPA'' 20 = Inr r \<and>
        ad_spend r = 20 \<and> final_cpa r = 20 \<and> final_roas r = 4.1495) \<and>
   (\<exists>r. profit_calculator 0 0 ''CPA'' 0 = Inr r \<and>
        ad_spend r = 0 \<and> final_cpa r = 0 \<and> final_roas r = 0)"
  using cpa_mode [of "82.99" 10 20] cpa_mode [of 0 0 0]
  unfolding scenario_1 scenario_3 by simp

text \<open>
  C3. In ROAS mode, for every product price and mode value: if the mode value is positive,
  \<open>ad_spend = product_price / mode_value\<close>, \<open>final_cpa = ad_spend\<close> and
  \<open>final_roas = mode_value\<close>; otherwise (in particular at mode value 0) all three are 0,
  and this is a result, not an error.
\<close>

theorem roas_mode:
  "\<exists>r. profit_calculator product_price cogs ''ROAS'' mode_value = Inr r \<and>
       (if mode_value > 0
        then ad_spend r = product_price / mode_value \<and> final_cpa r = ad_spend r \<and>
             final_roas r = mode_value
        else ad_spend r = 0 \<and> final_cpa r = 0 \<and> final_roas r = 0)"
proof (cases "mode_value > 0")
  case True
  then have "mode_specific_logic ''ROAS'' mode_value product_price =
      Inr (product_price / mode_value, product_price / mode_value, mode_value)"
    by (simp add: mode_specific_logic_other)
  from profit_calculator_eq [OF this] True show ?thesis by simp
next
  case False
  then have "mode_specific_logic ''ROAS'' mode_value product_price = Inr (0, 0, 0)"
    by (simp add: mode_specific_logic_other)
  from profit_calculator_eq [OF this] False show ?thesis by simp
qed

text \<open>Both branches: a desired ROAS of 2 at price 100 (scenario 2), and a desired ROAS of 0.\<close>

theorem roas_mode_witness:
  "(\<exists>r. profit_calculator 100 20 ''ROAS'' 2 = Inr r \<and>
        ad_spend r = 50 \<and> final_cpa r = 50 \<and> final_roas r = 2) \<and>
   (\<exists>r. profit_calculator 100 20 ''ROAS'' 0 = Inr r \<and>
        ad_spend r = 0 \<and> final_cpa r = 0 \<and> final_roas r = 0)"
  using roas_mode [of 100 20 2] roas_mode [of 100 20 0]
  unfolding scenario_2 scenario_roas_zero by simp

section \<open>Fees and breakeven\<close>



text \<open>
  C5. For every \<open>p\<close>, \<open>c\<close> and \<open>fees\<close>, \<open>calculate_breakeven_metrics\<close> returns
  \<open>breakeven_cpa = p - c - fees\<close> as it is (negative and zero values included), and
  \<open>breakeven_roas = p / breakeven_cpa\<close> when \<open>breakeven_cpa \<noteq> 0\<close>, the sentinel \<open>0\<close> when
  \<open>breakeven_cpa = 0\<close>.
\<close>

theorem breakeven_metrics_values:
  "\<exists>b. calculate_breakeven_metrics p c fees = Inr b \<and>
       breakeven_cpa b = p - c - fees \<and>
       breakeven_roas b = (if breakeven_cpa b \<noteq> 0 then p / breakeven_cpa b else 0)"
  by (simp add: calculate_breakeven_metrics_eq)

text \<open>A positive, a zero and a negative breakeven ad spend.\<close>

theorem breakeven_metrics_values_witness:
  "(\<exists>b. calculate_breakeven_metrics 82.99 10 2.70671 = Inr b \<and>
        breakeven_cpa b = 70.28329 \<and> breakeven_roas b = 82.99 / 70.28329) \<and>
   (\<exists>b. calculate_breakeven_metrics 100 96.8 3.2 = Inr b \<and>
        breakeven_cpa b = 0 \<and> breakeven_roas b = 0) \<and>
   (\<exists>b. calculate_breakeven_metrics 10 20 0.59 = Inr b \<and>
        breakeven_cpa b = - 10.59 \<and> breakeven_roas b = 10 / (- 10.59))"
  using breakeven_metrics_values [of "82.99" 10 "2.70671"]
    breakeven_metrics_values [of 100 "96.8" "3.2"]
    breakeven_metrics_values [of 10 20 "0.59"]
  by (simp add: calculate_breakeven_metrics_eq)

text \<open>
  C6, as stated, fails: the fees are \<open>0.029 * product_price + 0.30\<close> for every price, but
  they are not always \<open>\<ge> 0.30\<close>. \<open>calculate_shopify_fees\<close> and the script body accept a
  negative price, and at price \<open>-1\<close> the fees are \<open>0.271\<close>.
\<close>

theorem shopify_fees_below_030:
  "calculate_shopify_fees (- 1) = 0.271 \<and> calculate_shopify_fees (- 1) < 0.30 \<and>
   map_sum id shopify_fees (profit_calculator (- 1) 0 ''CPA'' 0) = Inr 0.271"
proof -
  have "mode_specific_logic ''CPA'' 0 (- 1) = Inr (0, 0, 0)"
    by (simp add: mode_specific_logic_CPA)
  from profit_calculator_eq [OF this] show ?thesis
    by (simp add: calculate_shopify_fees_def)
qed

text \<open>
  C6, amended. For every input with \<open>product_price \<ge> 0\<close> (what the price widget, with
  \<open>min_value=0.0\<close>, guarantees), the fees of the produced record are
  \<open>0.029 * product_price + 0.30\<close> and are \<open>\<ge> 0.30\<close>.
\<close>

theorem shopify_fees_at_least_030:
  "0 \<le> product_price \<Longrightarrow>
     \<exists>r. profit_calculator product_price cogs calculation_mode mode_value = Inr r \<and>
         shopify_fees r = 0.029 * product_price + 0.30 \<and> 0.30 \<le> shopify_fees r"
proof -
  assume "0 \<le> product_price"
  moreover obtain a cpa roas
    where "mode_specific_logic calculation_mode mode_value product_price = Inr (a, cpa, roas)"
    using mode_specific_logic_total by blast
  ultimately show ?thesis
    by (simp add: profit_calculator_eq calculate_shopify_fees_def)
qed

theorem shopify_fees_at_least_030_witness:
  "(0::real) \<le> 82.99 \<and>
   (\<exists>r. profit_calculator 82.99 10 ''CPA'' 20 = Inr r \<and>
        shopify_fees r = 2.70671 \<and> 0.30 \<le> shopify_fees r)"
proof -
  have h: "(0::real) \<le> 82.99" by simp
  from shopify_fees_at_least_030 [OF h, of 10 "''CPA''" 20] show ?thesis
    unfolding scenario_1 by simp
qed

text \<open>
  C7. For every \<open>p\<close>, \<open>c\<close> and \<open>fees\<close>: with the ad spend set to the \<open>breakeven_cpa\<close> that
  \<open>calculate_breakeven_metrics\<close> returns, the profit formula of the script,
  \<open>p - c - fees - ad_spend\<close>, is zero.
\<close>

theorem breakeven_cpa_zero_profit:
  "\<exists>b. calculate_breakeven_metrics p c fees = Inr b \<and>
       unit_profit p c fees (breakeven_cpa b) = 0"
  by (simp add: calculate_breakeven_metrics_eq unit_profit_def)

theorem breakeven_cpa_zero_profit_witness:
  "\<exists>b. calculate_breakeven_metrics 82.99 10 2.70671 = Inr b \<and> breakeven_cpa b = 70.28329 \<and>
       unit_profit 82.99 10 2.70671 (breakeven_cpa b) = 0"
  using breakeven_cpa_zero_profit [of "82.99" 10 "2.70671"] unfolding scenario_breakeven
  by simp

text \<open>
  The same through the whole script: in CPA mode, a desired CPA equal to the breakeven CPA
  of the inputs gives profit zero.
\<close>

lemma breakeven_cpa_zero_profit_script:
  "\<exists>r. profit_calculator p c ''CPA'' (p - c - calculate_shopify_fees p) = Inr r \<and>
       ad_spend r = breakeven_cpa (breakeven_data r) \<and> profit r = 0"
  by (simp add: profit_calculator_eq [OF mode_specific_logic_CPA] unit_profit_def)

section \<open>No exception\<close>

text \<open>
  C8, as stated, fails in one part. The calculation never raises, but it is not true that
  every zero or non-positive denominator is replaced by the fallback \<open>0\<close>: the guard in
  \<open>calculate_breakeven_metrics\<close> is \<open>ad_spend_breakeven != 0\<close>, so a negative breakeven ad
  spend is divided by (the source comments: "we'll just display whatever it is (can be
  negative)"). At price 1 and COGS 2 the denominator is \<open>-1.329\<close> and the breakeven ROAS is
  \<open>-1000/1329\<close>, not \<open>0\<close>.
\<close>

theorem negative_breakeven_denominator_divided:
  "(1::real) - 2 - calculate_shopify_fees 1 \<le> 0 \<and>
   map_sum id breakeven_data (profit_calculator 1 2 ''CPA'' 0) =
     Inr \<lparr>breakeven_cpa = - 1.329, breakeven_roas = - (1000 / 1329)\<rparr> \<and>
   - (1000 / 1329) \<noteq> (0::real)"
proof -
  have "mode_specific_logic ''CPA'' 0 1 = Inr (0, 0, 0)"
    by (simp add: mode_specific_logic_CPA)
  from profit_calculator_eq [OF this] show ?thesis
    by (simp add: calculate_shopify_fees_def)
qed

text \<open>
  C8, amended. The calculation never raises, for any input: each of its three divisions is
  guarded, so \<open>calculate_breakeven_metrics\<close>, the mode-specific logic and the whole script
  return a value. A zero breakeven denominator gives the fallback \<open>breakeven_roas = 0\<close>; a
  non-positive mode value gives the fallback \<open>final_roas = 0\<close> (and, in ROAS mode, also
  \<open>ad_spend = final_cpa = 0\<close>). A negative breakeven denominator is not replaced: it is
  non-zero, and the division is carried out.
\<close>

theorem calculation_never_raises:
  "(\<exists>b. calculate_breakeven_metrics p c fees = Inr b \<and>
        (p - c - fees = 0 \<longrightarrow> breakeven_roas b = 0) \<and>
        (p - c - fees \<noteq> 0 \<longrightarrow> breakeven_roas b = p / (p - c - fees))) \<and>
   (\<exists>a cpa roas. mode_specific_logic m v p = Inr (a, cpa, roas) \<and>
        (v \<le> 0 \<longrightarrow> roas = 0) \<and> (v \<le> 0 \<and> m \<noteq> ''CPA'' \<longrightarrow> a = 0 \<and> cpa = 0)) \<and>
   (\<exists>r. profit_calculator p c m v = Inr r)"
proof (intro conjI)
  show "\<exists>b. calculate_breakeven_metrics p c fees = Inr b \<and>
        (p - c - fees = 0 \<longrightarrow> breakeven_roas b = 0) \<and>
        (p - c - fees \<noteq> 0 \<longrightarrow> breakeven_roas b = p / (p - c - fees))"
    by (simp add: calculate_breakeven_metrics_eq)
  show "\<exists>a cpa roas. mode_specific_logic m v p = Inr (a, cpa, roas) \<and>
        (v \<le> 0 \<longrightarrow> roas = 0) \<and> (v \<le> 0 \<and> m \<noteq> ''CPA'' \<longrightarrow> a = 0 \<and> cpa = 0)"
    by (cases "m = ''CPA''") (simp_all add: mode_specific_logic_CPA mode_specific_logic_other)
  show "\<exists>r. profit_calculator p c m v = Inr r"
    by (rule profit_calculator_total)
qed

text \<open>
  The fallbacks at price 100, COGS 96.8 (breakeven ad spend 0) and a desired ROAS of 0, and
  the division at price 1, COGS 2, fees 0.329 (breakeven ad spend \<open>-1.329\<close>).
\<close>

theorem calculation_never_raises_witness:
  "((100::real) - 96.8 - 3.2 = 0 \<and> (0::real) \<le> 0 \<and> ''ROAS'' \<noteq> ''CPA'' \<and>
    (\<exists>b. calculate_breakeven_metrics 100 96.8 3.2 = Inr b \<and> breakeven_roas b = 0) \<and>
    (\<exists>a cpa roas. mode_specific_logic ''ROAS'' 0 100 = Inr (a, cpa, roas) \<and>
         roas = 0 \<and> a = 0 \<and> cpa = 0) \<and>
    (\<exists>r. profit_calculator 100 96.8 ''ROAS'' 0 = Inr r)) \<and>
   ((1::real) - 2 - 0.329 \<noteq> 0 \<and>
    (\<exists>b. calculate_breakeven_metrics 1 2 0.329 = Inr b \<and>
         breakeven_roas b = - (1000 / 1329)))"
  using calculation_never_raises [of 100 "96.8" "3.2" "''ROAS''" 0]
    calculation_never_raises [of 1 2 "0.329" "''CPA''" 0]
  by simp

section \<open>The chart values\<close>

text \<open>
  C9, as stated, fails: the script passes \<open>values = [cogs, shopify_fees, ad_spend, profit]\<close>
  to the chart as computed; nothing clamps them. With price 0, COGS 0 and a desired CPA of 0
  (inputs the widgets allow) the chart receives the profit \<open>-0.30\<close>.
\<close>

theorem chart_receives_negative_profit:
  "widget_inputs 0 0 ''CPA'' 0 \<and>
   map_sum id chart_values (profit_calculator 0 0 ''CPA'' 0) = Inr [0, 0.30, 0, - 0.30] \<and>
   map_sum id profit (profit_calculator 0 0 ''CPA'' 0) = Inr (- 0.30) \<and>
   - 0.30 < (0::real)"
  by (simp add: scenario_3 widget_inputs_def)

text \<open>
  C9, amended. For every input the widgets allow (non-negative price, COGS and mode value,
  mode CPA or ROAS), the four labelled magnitudes fed to the chart are COGS, Shopify Fees,
  Ad Spend and Profit as computed, without clamping; the first three are \<open>\<ge> 0\<close>, and Profit
  is passed as it is.
\<close>

theorem chart_values_unclamped:
  "widget_inputs product_price cogs calculation_mode mode_value \<Longrightarrow>
     \<exists>r. profit_calculator product_price cogs calculation_mode mode_value = Inr r \<and>
         zip labels (chart_values r) =
           [(''COGS'', cogs), (''Shopify Fees'', shopify_fees r),
            (''Ad Spend'', ad_spend r), (''Profit'', profit r)] \<and>
         0 \<le> cogs \<and> 0 \<le> shopify_fees r \<and> 0 \<le> ad_spend r"
proof -
  assume w: "widget_inputs product_price cogs calculation_mode mode_value"
  then have p: "0 \<le> product_price" and c: "0 \<le> cogs" and v: "0 \<le> mode_value"
    by (simp_all add: widget_inputs_def)
  have "\<exists>a cpa roas. mode_specific_logic calculation_mode mode_value product_price =
          Inr (a, cpa, roas) \<and> 0 \<le> a"
    using p v
    by (cases "calculation_mode = ''CPA''")
      (simp_all add: mode_specific_logic_CPA mode_specific_logic_other)
  then obtain a cpa roas
    where m: "mode_specific_logic calculation_mode mode_value product_price = Inr (a, cpa, roas)"
      and a: "0 \<le> a"
    by blast
  show ?thesis
    using p c a
    by (simp add: profit_calculator_eq [OF m] calculate_shopify_fees_def labels_def)
qed

theorem chart_values_unclamped_witness:
  "widget_inputs 100 20 ''ROAS'' 2 \<and>
   (\<exists>r. profit_calculator 100 20 ''ROAS'' 2 = Inr r \<and>
        zip labels (chart_values r) =
          [(''COGS'', 20), (''Shopify Fees'', 3.20), (''Ad Spend'', 50), (''Profit'', 26.80)])"
proof -
  have h: "widget_inputs 100 20 ''ROAS'' 2" by (simp add: widget_inputs_def)
  from chart_values_unclamped [OF h] h show ?thesis
    unfolding scenario_2 by (simp add: labels_def)
qed

section \<open>CPA times ROAS\<close>



end
